theory Spec2Isabelle
  imports Main "HOL-Library.AList"
begin

section \<open>JavaScript strings\<close>

text \<open>
  The generator script (\<^verbatim>\<open>src/postinstall.js\<close>, from line 15) builds source text by
  string concatenation. Strings are modelled as \<^typ>\<open>string\<close>; the inputs of interest
  (paths, parameter names, schema names) are ASCII. A JavaScript value that may be
  \<^verbatim>\<open>undefined\<close> is an \<^typ>\<open>'a option\<close>; a template literal prints \<^verbatim>\<open>undefined\<close>
  for it.
\<close>

definition undefined_str :: "string option \<Rightarrow> string" where
  "undefined_str v = (case v of None \<Rightarrow> ''undefined'' | Some s \<Rightarrow> s)"

text \<open>Truthiness of a possibly absent string: absent and empty are falsy.\<close>

definition truthy_str :: "string option \<Rightarrow> bool" where
  "truthy_str v = (case v of None \<Rightarrow> False | Some s \<Rightarrow> s \<noteq> [])"

text \<open>\<^verbatim>\<open>a || b\<close> on a possibly absent string \<^verbatim>\<open>a\<close> and a string \<^verbatim>\<open>b\<close>.\<close>

definition or_else :: "string option \<Rightarrow> string \<Rightarrow> string" where
  "or_else v d = (case v of None \<Rightarrow> d | Some s \<Rightarrow> (if s = [] then d else s))"

text \<open>The characters \<^verbatim>\<open>.\<close> of a regular expression does not match.\<close>

definition lineTerminator :: "char \<Rightarrow> bool" where
  "lineTerminator c = (c = CHR 0x0A \<or> c = CHR 0x0D)"

definition toUpperChar :: "char \<Rightarrow> char" where
  "toUpperChar c =
     (let n = (of_char c :: nat) in if 97 \<le> n \<and> n \<le> 122 then char_of (n - 32) else c)"

definition toLowerChar :: "char \<Rightarrow> char" where
  "toLowerChar c =
     (let n = (of_char c :: nat) in if 65 \<le> n \<and> n \<le> 90 then char_of (n + 32) else c)"

definition toLowerCase :: "string \<Rightarrow> string" where
  "toLowerCase s = map toLowerChar s"

text \<open>
  \<^verbatim>\<open>String.prototype.toNormalCase\<close>:
  \<^verbatim>\<open>this.charAt(0).toUpperCase() + this.slice(1).toLowerCase()\<close>.
\<close>

fun toNormalCase :: "string \<Rightarrow> string" where
  "toNormalCase [] = []"
| "toNormalCase (c # cs) = toUpperChar c # map toLowerChar cs"

text \<open>\<^verbatim>\<open>Array.prototype.join\<close>.\<close>

fun join :: "string \<Rightarrow> string list \<Rightarrow> string" where
  "join sep [] = []"
| "join sep [x] = x"
| "join sep (x # y # ys) = x @ sep @ join sep (y # ys)"

text \<open>
  \<^verbatim>\<open>String.prototype.split\<close> with a regular expression that matches single characters
  (\<^verbatim>\<open>/\-|\./\<close>, \<^verbatim>\<open>/-|\//\<close>): the string is cut at every separator; the empty string
  gives one empty part.
\<close>

fun split_on :: "(char \<Rightarrow> bool) \<Rightarrow> string \<Rightarrow> string list" where
  "split_on sep [] = [[]]"
| "split_on sep (c # cs) =
     (if sep c then [] # split_on sep cs
      else (case split_on sep cs of [] \<Rightarrow> [[c]] | x # xs \<Rightarrow> (c # x) # xs))"

text \<open>
  \<^verbatim>\<open>String.prototype.replace\<close> with a string pattern: the first occurrence is replaced.
  The replacement texts of the generator hold no \<^verbatim>\<open>$\<close> pattern unless a parameter name
  does; such names are outside the model.
\<close>

fun replace_first :: "string \<Rightarrow> string \<Rightarrow> string \<Rightarrow> string" where
  "replace_first pat rep [] = (if pat = [] then rep else [])"
| "replace_first pat rep (c # cs) =
     (if take (length pat) (c # cs) = pat then rep @ drop (length pat) (c # cs)
      else c # replace_first pat rep cs)"

text \<open>
  The name normalisation of \<^verbatim>\<open>buildParamsInfo\<close>:
  \<^verbatim>\<open>name.split(/\-|\./).map((part, index) => index ? part.toNormalCase() : part).join('')\<close>.
\<close>

definition normalizeName :: "string \<Rightarrow> string" where
  "normalizeName n =
     (case split_on (\<lambda>c. c = CHR ''-'' \<or> c = CHR ''.'') n of
        [] \<Rightarrow> []
      | part # parts \<Rightarrow> part @ concat (map toNormalCase parts))"

section \<open>The host's sort\<close>

text \<open>
  \<^verbatim>\<open>methodInfo.parameters.sort(param => param.required ? -1 : 1)\<close> calls
  \<^verbatim>\<open>Array.prototype.sort\<close> with a comparator that reads its first argument only and
  never answers 0. ECMAScript leaves the order implementation-defined for such a
  comparator, so the model follows the engine the script runs on: V8 (Node.js 11 and
  later; the script uses \<^verbatim>\<open>matchAll\<close>, Node.js 12), whose sort is the TimSort of
  \<^verbatim>\<open>third_party/v8/builtins/array-sort.tq\<close>. V8 sorts an array of fewer than 64
  elements as one run: \<^verbatim>\<open>CountAndMakeRun\<close> finds the longest ascending or strictly
  descending prefix, comparing each element with its predecessor (a descending prefix
  is reversed), and \<^verbatim>\<open>BinaryInsertionSort\<close> inserts the remaining elements, comparing
  the pivot with the middle element. Longer arrays are cut to runs that are merged, which
  the model does not follow: it is the engine's sort for arrays of fewer than 64
  elements only (no operation of the documented APIs has 64 parameters), and the
  properties that depend on the order are evaluated on such arrays.
\<close>

fun countRun :: "('a \<Rightarrow> 'a \<Rightarrow> int) \<Rightarrow> bool \<Rightarrow> 'a \<Rightarrow> 'a list \<Rightarrow> nat" where
  "countRun comparefn isDescending previousElement [] = 0"
| "countRun comparefn isDescending previousElement (currentElement # rest) =
     (let order = comparefn currentElement previousElement in
      if (if isDescending then order \<ge> 0 else order < 0) then 0
      else Suc (countRun comparefn isDescending currentElement rest))"

fun countAndMakeRun :: "('a \<Rightarrow> 'a \<Rightarrow> int) \<Rightarrow> 'a list \<Rightarrow> nat \<times> 'a list" where
  "countAndMakeRun comparefn (elementHigh # elementLow # rest) =
     (let isDescending = (comparefn elementLow elementHigh < 0);
          runLength = 2 + countRun comparefn isDescending elementLow rest;
          workArray = elementHigh # elementLow # rest
      in (runLength,
          if isDescending then rev (take runLength workArray) @ drop runLength workArray
          else workArray))"
| "countAndMakeRun comparefn workArray = (length workArray, workArray)"

function binarySearch :: "('a \<Rightarrow> 'a \<Rightarrow> int) \<Rightarrow> 'a \<Rightarrow> 'a list \<Rightarrow> nat \<Rightarrow> nat \<Rightarrow> nat" where
  "binarySearch comparefn pivot workArray left right =
     (if left < right then
        (let mid = left + (right - left) div 2;
             order = comparefn pivot (workArray ! mid)
         in if order < 0 then binarySearch comparefn pivot workArray left mid
            else binarySearch comparefn pivot workArray (mid + 1) right)
      else left)"
  by pat_completeness auto
termination
  by (relation "measure (\<lambda>(comparefn, pivot, workArray, left, right). right - left)") auto

declare binarySearch.simps [simp del]

fun binaryInsertionSort :: "('a \<Rightarrow> 'a \<Rightarrow> int) \<Rightarrow> 'a list \<Rightarrow> 'a list \<Rightarrow> 'a list" where
  "binaryInsertionSort comparefn workArray [] = workArray"
| "binaryInsertionSort comparefn workArray (pivot # rest) =
     (let left = binarySearch comparefn pivot workArray 0 (length workArray)
      in binaryInsertionSort comparefn (take left workArray @ pivot # drop left workArray) rest)"

definition Array_sort :: "('a \<Rightarrow> 'a \<Rightarrow> int) \<Rightarrow> 'a list \<Rightarrow> 'a list" where
  "Array_sort comparefn xs =
     (case countAndMakeRun comparefn xs of
        (runLength, workArray) \<Rightarrow>
          binaryInsertionSort comparefn (take runLength workArray) (drop runLength workArray))"

section \<open>The documents the generator reads\<close>

text \<open>
  A schema node of a Swagger document: \<^verbatim>\<open>$ref\<close>, \<^verbatim>\<open>type\<close>, \<^verbatim>\<open>description\<close>,
  \<^verbatim>\<open>properties\<close> (in the order \<^verbatim>\<open>Object.entries\<close> lists them) and \<^verbatim>\<open>items\<close>; each may
  be absent. These are the fields the generator reads; the list \<^verbatim>\<open>required\<close> of an object
  schema is not among them, so nothing the generator does depends on it.
\<close>

datatype schema = Schema
  (s_ref: "string option")
  (s_type: "string option")
  (s_description: "string option")
  (s_properties: "(string \<times> schema) list option")
  (s_items: "schema option")

text \<open>\<^verbatim>\<open>doc.definitions\<close>: schema name to schema node.\<close>

type_synonym definitions = "(string \<times> schema) list"

text \<open>
  A declared parameter of an operation (an element of \<^verbatim>\<open>methodInfo.parameters\<close>):
  \<^verbatim>\<open>name\<close>, \<^verbatim>\<open>in\<close>, \<^verbatim>\<open>type\<close>, \<^verbatim>\<open>description\<close>, \<^verbatim>\<open>enum\<close> (its values as the template
  literal prints them), \<^verbatim>\<open>required\<close> (its truthiness) and \<^verbatim>\<open>schema\<close>.
\<close>

record parameter =
  p_name :: string
  p_in :: "string option"
  p_type :: "string option"
  p_description :: "string option"
  p_enum :: "string list option"
  p_required :: bool
  p_schema :: "schema option"

text \<open>An operation (\<^verbatim>\<open>methodInfo\<close>): \<^verbatim>\<open>parameters\<close>, \<^verbatim>\<open>summary\<close>, \<^verbatim>\<open>deprecated\<close>.\<close>

record methodInfo =
  parameters :: "parameter list option"
  summary :: "string option"
  deprecated :: bool

text \<open>The output descriptor \<^verbatim>\<open>out\<close> and a logical parameter (an element of \<^verbatim>\<open>params\<close>).\<close>

record out =
  out_param :: string
  location :: "string option"

record param =
  name :: string
  ptype :: "string option"
  description :: string
  out :: out
  enum :: "string list option"
  required :: bool

record paramsInfo =
  params :: "param list"
  pathParams :: "(string \<times> string) list"
  isMapped :: bool

text \<open>
  What the generator throws: a \<^verbatim>\<open>TypeError\<close> of the runtime (a property read on
  \<^verbatim>\<open>undefined\<close> or \<^verbatim>\<open>null\<close>), an \<^verbatim>\<open>Error\<close> of its own with its message, and the rejection
  of a request.
\<close>

datatype error = TypeError | Error string | RequestFailed string

section \<open>Parameter resolution\<close>

text \<open>
  \<^verbatim>\<open>docNode.$ref.match(/#\/definitions\/(.+)/)[1]\<close>: the first place where
  \<^verbatim>\<open>#/definitions/\<close> is followed by a character other than a line terminator; the group
  runs to the end of the line. No match is \<^verbatim>\<open>null\<close>, whose index 1 is a \<^verbatim>\<open>TypeError\<close>.
\<close>

fun ref_match :: "string \<Rightarrow> string option" where
  "ref_match [] = None"
| "ref_match (c # cs) =
     (let rest = takeWhile (\<lambda>x. \<not> lineTerminator x) (drop 14 (c # cs)) in
      if take 14 (c # cs) = ''#/definitions/'' \<and> rest \<noteq> [] then Some rest
      else ref_match cs)"

text \<open>
  \<^verbatim>\<open>extractSchemaNode(docNode, schemas)\<close>. The node may be \<^verbatim>\<open>undefined\<close> (a missing
  \<^verbatim>\<open>items\<close>), and so may the result (a name \<^verbatim>\<open>schemas\<close> does not hold).
\<close>

definition extractSchemaNode :: "schema option \<Rightarrow> definitions \<Rightarrow> error + schema option" where
  "extractSchemaNode docNode schemas =
     (case docNode of
        None \<Rightarrow> Inl TypeError
      | Some node \<Rightarrow>
          if truthy_str (s_ref node) then
            (case ref_match (undefined_str (s_ref node)) of
               None \<Rightarrow> Inl TypeError
             | Some schemaName \<Rightarrow> Inr (map_of schemas schemaName))
          else Inr (Some node))"

text \<open>
  \<^verbatim>\<open>path.matchAll(/\{([a-zA-Z\-]+).*?\}/g)\<close>: a match starts at a brace followed by a
  non-empty run of letters and hyphens (the group) and ends at the first closing brace
  after it, with no line terminator in between; the scan goes on after the match.
\<close>

definition letterOrHyphen :: "char \<Rightarrow> bool" where
  "letterOrHyphen c =
     (let n = (of_char c :: nat) in
      (65 \<le> n \<and> n \<le> 90) \<or> (97 \<le> n \<and> n \<le> 122) \<or> c = CHR ''-'')"

definition placeholderAt :: "string \<Rightarrow> (string \<times> string) option" where
  "placeholderAt s =
     (case s of
        [] \<Rightarrow> None
      | c # cs \<Rightarrow>
          (let grp = takeWhile letterOrHyphen cs;
               after = dropWhile letterOrHyphen cs;
               lazy = takeWhile (\<lambda>x. x \<noteq> CHR ''}'' \<and> \<not> lineTerminator x) after
           in if c = CHR ''{'' \<and> grp \<noteq> [] \<and> take 1 (drop (length lazy) after) = ''}''
              then Some (grp, c # grp @ lazy @ ''}'')
              else None))"

fun matchAll :: "nat \<Rightarrow> string \<Rightarrow> (string \<times> string) list" where
  "matchAll skip [] = []"
| "matchAll (Suc skip) (c # cs) = matchAll skip cs"
| "matchAll 0 (c # cs) =
     (case placeholderAt (c # cs) of
        None \<Rightarrow> matchAll 0 cs
      | Some (grp, whole) \<Rightarrow> (grp, whole) # matchAll (length whole - 1) cs)"

text \<open>
  \<^verbatim>\<open>pathParams[param[1]] = param[0]\<close> for every match: a later match of the same name
  replaces the earlier one. The list holds the own properties of \<^verbatim>\<open>pathParams\<close>.
\<close>

definition buildPathParams :: "string \<Rightarrow> (string \<times> string) list" where
  "buildPathParams path = fold (\<lambda>(k, v). AList.update k v) (matchAll 0 path) []"

text \<open>
  \<^verbatim>\<open>pathParams\<close> is a plain object (\<^verbatim>\<open>const pathParams = {}\<close>), so a read
  \<^verbatim>\<open>pathParams[key]\<close> of a key it does not own finds what \<^verbatim>\<open>Object.prototype\<close> defines
  under that name: a function, or the prototype itself for \<^verbatim>\<open>__proto__\<close>. Each of these
  is truthy, and as the pattern of \<^verbatim>\<open>replace\<close> it is the text the engine prints for it.
\<close>

definition objectPrototypeNames :: "string list" where
  "objectPrototypeNames =
     [''constructor'', ''__defineGetter__'', ''__defineSetter__'', ''hasOwnProperty'',
      ''__lookupGetter__'', ''__lookupSetter__'', ''isPrototypeOf'', ''propertyIsEnumerable'',
      ''toString'', ''valueOf'', ''__proto__'', ''toLocaleString'']"

definition inheritedText :: "string \<Rightarrow> string" where
  "inheritedText key =
     (if key = ''__proto__'' then ''[object Object]''
      else ''function '' @ (if key = ''constructor'' then ''Object'' else key)
           @ ''() { [native code] }'')"

text \<open>The truthiness of \<^verbatim>\<open>pathParams[key]\<close>.\<close>

definition pathParamTruthy :: "(string \<times> string) list \<Rightarrow> string \<Rightarrow> bool" where
  "pathParamTruthy pps key =
     (case map_of pps key of
        Some whole \<Rightarrow> whole \<noteq> []
      | None \<Rightarrow> key \<in> set objectPrototypeNames)"

text \<open>The comparator of line 307: \<^verbatim>\<open>param => param.required ? -1 : 1\<close>.\<close>

definition comparefn :: "parameter \<Rightarrow> parameter \<Rightarrow> int" where
  "comparefn param other = (if p_required param then - 1 else 1)"

text \<open>
  \<^verbatim>\<open>{ param: param.name, location: pathParams[param.name] ? 'path' : param.in }\<close>.
\<close>

definition mkOut :: "(string \<times> string) list \<Rightarrow> parameter \<Rightarrow> out" where
  "mkOut pps prm =
     \<lparr> out_param = p_name prm,
       location = (if pathParamTruthy pps (p_name prm) then Some ''path'' else p_in prm) \<rparr>"

text \<open>
  The element type of an array: \<^verbatim>\<open>extractSchemaNode(node.items, schemas)\<close> and then
  \<^verbatim>\<open>`array<${items.type}>`\<close>; reading \<^verbatim>\<open>type\<close> of an unresolved name is a \<^verbatim>\<open>TypeError\<close>.
\<close>

definition arrayType :: "schema option \<Rightarrow> definitions \<Rightarrow> error + string option" where
  "arrayType itemsNode schemas =
     (case extractSchemaNode itemsNode schemas of
        Inl e \<Rightarrow> Inl e
      | Inr None \<Rightarrow> Inl TypeError
      | Inr (Some items) \<Rightarrow> Inr (Some (''array<'' @ undefined_str (s_type items) @ ''>'')))"

text \<open>
  The loop over \<^verbatim>\<open>Object.entries(schema.properties)\<close> of the single-object case (lines
  318 to 336). \<^verbatim>\<open>paramType\<close> is computed, and may throw, but the entry pushed records
  \<^verbatim>\<open>propInfo.type\<close>.
\<close>

fun mappedParams :: "out \<Rightarrow> definitions \<Rightarrow> (string \<times> schema) list \<Rightarrow> error + param list" where
  "mappedParams ou schemas [] = Inr []"
| "mappedParams ou schemas ((nm, propInfo) # rest) =
     (case (if s_type propInfo = Some ''array'' then arrayType (s_items propInfo) schemas
            else Inr (s_type propInfo)) of
        Inl e \<Rightarrow> Inl e
      | Inr paramType \<Rightarrow>
          (case mappedParams ou schemas rest of
             Inl e \<Rightarrow> Inl e
           | Inr ps \<Rightarrow>
               Inr (\<lparr> name = normalizeName nm,
                      ptype = s_type propInfo,
                      description = or_else (s_description propInfo) [],
                      out = ou,
                      enum = None,
                      required = True \<rparr> # ps)))"

text \<open>The body of the loop over all declared parameters (lines 339 to 368).\<close>

definition independentParam ::
  "(string \<times> string) list \<Rightarrow> definitions \<Rightarrow> parameter \<Rightarrow> error + param" where
  "independentParam pps schemas prm =
     (case (case p_schema prm of
              Some node \<Rightarrow>
                (case extractSchemaNode (Some node) schemas of
                   Inl e \<Rightarrow> Inl e
                 | Inr None \<Rightarrow> Inl TypeError
                 | Inr (Some sch) \<Rightarrow>
                     if s_type sch = Some ''array'' then arrayType (s_items sch) schemas
                     else Inr (s_type sch))
            | None \<Rightarrow> Inr (p_type prm)) of
        Inl e \<Rightarrow> Inl e
      | Inr paramType \<Rightarrow>
          Inr \<lparr> name = normalizeName (p_name prm),
                ptype = paramType,
                description = or_else (p_description prm) [],
                out = mkOut pps prm,
                enum = map_option (map (\<lambda>v. [CHR 0x27] @ v @ [CHR 0x27])) (p_enum prm),
                required = p_required prm \<rparr>)"

fun independentParams ::
  "(string \<times> string) list \<Rightarrow> definitions \<Rightarrow> parameter list \<Rightarrow> error + param list" where
  "independentParams pps schemas [] = Inr []"
| "independentParams pps schemas (prm # rest) =
     (case independentParam pps schemas prm of
        Inl e \<Rightarrow> Inl e
      | Inr p \<Rightarrow>
          (case independentParams pps schemas rest of
             Inl e \<Rightarrow> Inl e
           | Inr ps \<Rightarrow> Inr (p # ps)))"

text \<open>
  \<^verbatim>\<open>buildParamsInfo(path, methodInfo, schemas)\<close>. The sort is in place, so the function
  also returns the operation as it leaves it; the sort comes before anything that can
  throw.
\<close>

definition sortParameters :: "methodInfo \<Rightarrow> methodInfo" where
  "sortParameters mi = mi \<lparr> parameters := map_option (Array_sort comparefn) (parameters mi) \<rparr>"

definition paramsInfoOf :: "string \<Rightarrow> parameter list \<Rightarrow> definitions \<Rightarrow> error + paramsInfo" where
  "paramsInfoOf path ps schemas =
     (let pps = buildPathParams path in
      case ps of
        [prm] \<Rightarrow>
          (case p_schema prm of
             Some node \<Rightarrow>
               (case extractSchemaNode (Some node) schemas of
                  Inl e \<Rightarrow> Inl e
                | Inr None \<Rightarrow> Inl TypeError
                | Inr (Some sch) \<Rightarrow>
                    if s_type sch = Some ''object'' then
                      (case s_properties sch of
                         None \<Rightarrow> Inl TypeError
                       | Some props \<Rightarrow>
                           (case mappedParams (mkOut pps prm) schemas props of
                              Inl e \<Rightarrow> Inl e
                            | Inr mapped \<Rightarrow>
                                Inr \<lparr> params = mapped, pathParams = pps,
                                      isMapped = (mapped \<noteq> []) \<rparr>))
                    else Inr \<lparr> params = [], pathParams = pps, isMapped = False \<rparr>)
           | None \<Rightarrow>
               (case independentParams pps schemas [prm] of
                  Inl e \<Rightarrow> Inl e
                | Inr ind \<Rightarrow> Inr \<lparr> params = ind, pathParams = pps, isMapped = False \<rparr>))
      | _ \<Rightarrow>
          (case independentParams pps schemas ps of
             Inl e \<Rightarrow> Inl e
           | Inr ind \<Rightarrow> Inr \<lparr> params = ind, pathParams = pps, isMapped = False \<rparr>))"

definition buildParamsInfo ::
  "string \<Rightarrow> methodInfo \<Rightarrow> definitions \<Rightarrow> methodInfo \<times> (error + paramsInfo)" where
  "buildParamsInfo path mi schemas =
     (sortParameters mi,
      case parameters (sortParameters mi) of
        None \<Rightarrow> Inr \<lparr> params = [], pathParams = [], isMapped = False \<rparr>
      | Some ps \<Rightarrow> paramsInfoOf path ps schemas)"


section \<open>Code generation\<close>

definition quote :: "string \<Rightarrow> string" where
  "quote s = [CHR 0x27] @ s @ [CHR 0x27]"

definition newline :: string where
  "newline = [CHR 0x0A]"

text \<open>\<^verbatim>\<open>buildMethodDoc(description, deprecated, params)\<close>.\<close>

definition paramDoc :: "param \<Rightarrow> string" where
  "paramDoc p =
     (let enumOrType = (case enum p of
                          Some vs \<Rightarrow> ''('' @ join ''|'' vs @ '')''
                        | None \<Rightarrow> undefined_str (ptype p));
          nm = (if required p then name p else ''['' @ name p @ '']'')
      in ''* @param {'' @ enumOrType @ ''} '' @ nm @ '' '' @ description p)"

definition buildMethodDoc :: "string option \<Rightarrow> bool \<Rightarrow> param list \<Rightarrow> string" where
  "buildMethodDoc descr depr ps =
     (if 0 < length ps \<or> depr then
        join newline
          (filter (\<lambda>line. line \<noteq> [])
             ([''/** '' @ or_else descr ''No description'',
               if depr then ''* @deprecated'' else []]
              @ map paramDoc ps @ [''*/'']))
      else ''/** '' @ or_else descr ''No description'' @ '' */'')"

text \<open>
  \<^verbatim>\<open>buildMethodName(apiClassName, path)\<close>. The two filters are the tests
  \<^verbatim>\<open>/^v(\d|.)+$/\<close> and \<^verbatim>\<open>/^\{.*?\}$/\<close>. \<^verbatim>\<open>RegExp(apiClassName, 'i').test(part)\<close> is
  modelled for the class names \<^verbatim>\<open>fetchMeta\<close> builds: letters only, so that the pattern
  is its own text and the test is a search that ignores case.
\<close>

definition versionPart :: "string \<Rightarrow> bool" where
  "versionPart part =
     (case part of
        [] \<Rightarrow> False
      | c # rest \<Rightarrow> c = CHR ''v'' \<and> rest \<noteq> [] \<and> list_all (\<lambda>x. \<not> lineTerminator x) rest)"

definition placeholderPart :: "string \<Rightarrow> bool" where
  "placeholderPart part =
     (2 \<le> length part \<and> take 1 part = ''{'' \<and> take 1 (rev part) = ''}''
      \<and> list_all (\<lambda>x. \<not> lineTerminator x) (butlast (drop 1 part)))"

fun occursIn :: "string \<Rightarrow> string \<Rightarrow> bool" where
  "occursIn pat [] = (pat = [])"
| "occursIn pat (c # cs) = (take (length pat) (c # cs) = pat \<or> occursIn pat cs)"

definition classNameTest :: "string \<Rightarrow> string \<Rightarrow> bool" where
  "classNameTest apiClassName part = occursIn (toLowerCase apiClassName) (toLowerCase part)"

fun nameLoop :: "string \<Rightarrow> nat \<Rightarrow> string \<Rightarrow> string list \<Rightarrow> string" where
  "nameLoop apiClassName n nm [] = nm"
| "nameLoop apiClassName n nm (part # rest) =
     (if nm = [] \<and> 1 < n \<and> classNameTest apiClassName part
      then nameLoop apiClassName n nm rest
      else nameLoop apiClassName n (nm @ toNormalCase part) rest)"

definition buildMethodName :: "string \<Rightarrow> string \<Rightarrow> string" where
  "buildMethodName apiClassName path =
     (let parts = filter (\<lambda>part. \<not> versionPart part \<and> \<not> placeholderPart part)
                    (filter (\<lambda>part. part \<noteq> [])
                       (split_on (\<lambda>c. c = CHR ''-'' \<or> c = CHR ''/'') path))
      in nameLoop apiClassName (length parts) [] parts)"

text \<open>
  \<^verbatim>\<open>buildMethodParams(params)\<close>: one binding per logical parameter, whose default is a
  call of the guard \<^verbatim>\<open>required('name')\<close> for a required parameter and \<^verbatim>\<open>null\<close> otherwise.
\<close>

definition paramBinding :: "param \<Rightarrow> string" where
  "paramBinding p =
     name p @ '' = '' @ (if required p then ''required('' @ quote (name p) @ '')'' else ''null'')"

definition buildMethodParams :: "param list \<Rightarrow> string" where
  "buildMethodParams ps =
     (if ps \<noteq> [] then ''{ '' @ join '', '' (map paramBinding ps) @ '' } = {}'' else [])"

text \<open>
  \<^verbatim>\<open>buildMethodBody(fullURL, methodType, params, pathParams, isMapped)\<close>. The record holds
  the variables the function updates.
\<close>

record request =
  fullURL :: string
  reqBody :: "string option"
  reqParams :: "string list"
  reqHeaders :: "string list"

text \<open>
  \<^verbatim>\<open>pathParams[key]\<close> as the pattern of \<^verbatim>\<open>replace\<close>: the placeholder of an own key, the
  text of an inherited value, and the text \<^verbatim>\<open>undefined\<close> for a key that is found nowhere.
\<close>

definition placeholderOf :: "(string \<times> string) list \<Rightarrow> string \<Rightarrow> string" where
  "placeholderOf pps key =
     (case map_of pps key of
        Some whole \<Rightarrow> whole
      | None \<Rightarrow> if key \<in> set objectPrototypeNames then inheritedText key else ''undefined'')"

text \<open>The grouped branch (lines 459 to 479), for the combined object \<^verbatim>\<open>param\<close>.\<close>

definition mappedObject :: "param list \<Rightarrow> string" where
  "mappedObject ps =
     ''{'' @ join ('','' @ newline) (map (\<lambda>p. quote (name p) @ '': '' @ name p) ps) @ ''}''"

definition mappedStep :: "(string \<times> string) list \<Rightarrow> param list \<Rightarrow> request \<Rightarrow> error + request" where
  "mappedStep pps ps rq =
     (case ps of
        [] \<Rightarrow> Inl TypeError
      | _ # _ \<Rightarrow>
          (let ou = out (last ps); prm = mappedObject ps in
           if location ou = Some ''path'' then
             Inr (rq \<lparr> fullURL := replace_first (placeholderOf pps (out_param ou)) prm (fullURL rq) \<rparr>)
           else if location ou = Some ''query'' then
             Inr (rq \<lparr> reqParams := reqParams rq @ [quote (out_param ou) @ '': '' @ prm] \<rparr>)
           else if location ou = Some ''header'' then
             Inr (rq \<lparr> reqHeaders := reqHeaders rq @ [quote (out_param ou) @ '': '' @ prm] \<rparr>)
           else if location ou = Some ''body'' then
             Inr (rq \<lparr> reqBody := Some prm \<rparr>)
           else Inl (Error (''Unsupported parameter location: '' @ undefined_str (location ou)))))"

text \<open>
  One round of the loop of the independent branch (lines 481 to 497).
  \<^verbatim>\<open>new Error(param)\<close> has the message \<^verbatim>\<open>[object Object]\<close>.
\<close>

definition independentStep :: "(string \<times> string) list \<Rightarrow> param \<Rightarrow> request \<Rightarrow> error + request" where
  "independentStep pps p rq =
     (let ou = out p in
      if location ou = Some ''path'' then
        Inr (rq \<lparr> fullURL := replace_first (placeholderOf pps (out_param ou))
                                (''${'' @ name p @ ''}'') (fullURL rq) \<rparr>)
      else if location ou = Some ''query'' then
        Inr (rq \<lparr> reqParams := reqParams rq @ [quote (out_param ou) @ '': '' @ name p] \<rparr>)
      else if location ou = Some ''header'' then
        Inr (rq \<lparr> reqHeaders := reqHeaders rq @ [quote (out_param ou) @ '': '' @ name p] \<rparr>)
      else if location ou = Some ''body'' then
        (if truthy_str (reqBody rq) then Inl (Error ''[object Object]'')
         else Inr (rq \<lparr> reqBody := Some (name p) \<rparr>))
      else if location ou = Some ''formData'' then
        Inr (rq \<lparr> reqBody := Some (name p),
                  reqHeaders := reqHeaders rq
                    @ [''...('' @ name p @ '' ? '' @ name p @ ''.getHeaders() : {})''] \<rparr>)
      else Inl (Error (''Unsupported parameter location: '' @ undefined_str (location ou))))"

fun independentLoop :: "(string \<times> string) list \<Rightarrow> param list \<Rightarrow> request \<Rightarrow> error + request" where
  "independentLoop pps [] rq = Inr rq"
| "independentLoop pps (p # ps) rq =
     (case independentStep pps p rq of
        Inl e \<Rightarrow> Inl e
      | Inr rq' \<Rightarrow> independentLoop pps ps rq')"

definition renderCall :: "string \<Rightarrow> request \<Rightarrow> string" where
  "renderCall methodType rq =
     ''return this.client({'' @ newline @ ''    ''
     @ join ('','' @ newline)
         ([''method: '' @ quote (toLowerCase methodType),
           ''url: `'' @ fullURL rq @ ''`'']
          @ (if truthy_str (reqBody rq) then [''data: '' @ undefined_str (reqBody rq)] else [])
          @ (if reqParams rq \<noteq> []
             then [''params: {'' @ join ('','' @ newline) (reqParams rq) @ ''}''] else [])
          @ (if reqHeaders rq \<noteq> []
             then [''headers: {'' @ join ('','' @ newline) (reqHeaders rq) @ ''}''] else []))
     @ newline @ ''  });''"

definition buildMethodBody ::
  "string \<Rightarrow> string \<Rightarrow> param list \<Rightarrow> (string \<times> string) list \<Rightarrow> bool \<Rightarrow> error + string" where
  "buildMethodBody url methodType ps pps mapped =
     (let rq0 = \<lparr> fullURL = url, reqBody = None, reqParams = [], reqHeaders = [] \<rparr> in
      case (if mapped then mappedStep pps ps rq0 else independentLoop pps ps rq0) of
        Inl e \<Rightarrow> Inl e
      | Inr rq \<Rightarrow> Inr (renderCall methodType rq))"

text \<open>
  \<^verbatim>\<open>buildEndpoint(apiClassName, url, path, endpointData, schemas)\<close>: one method per
  entry of \<^verbatim>\<open>endpointData\<close>. Each operation is sorted in place on the way, so the
  function also returns \<^verbatim>\<open>endpointData\<close> as it leaves it.
\<close>

definition methodText :: "string \<Rightarrow> string \<Rightarrow> string \<Rightarrow> string \<Rightarrow> string \<Rightarrow> string" where
  "methodText mathodDoc methodType methodName methodParams methodBody =
     mathodDoc @ newline @ ''    '' @ methodType @ methodName @ ''('' @ methodParams @ '') {''
     @ newline @ ''      '' @ methodBody @ newline @ ''    }''"

fun buildMethods ::
  "string \<Rightarrow> string \<Rightarrow> string \<Rightarrow> nat \<Rightarrow> definitions \<Rightarrow> (string \<times> methodInfo) list
     \<Rightarrow> (string \<times> methodInfo) list \<times> (error + string list)" where
  "buildMethods apiClassName url path n schemas [] = ([], Inr [])"
| "buildMethods apiClassName url path n schemas ((methodType, mi) # rest) =
     (case buildParamsInfo path mi schemas of
        (mi', Inl e) \<Rightarrow> ((methodType, mi') # rest, Inl e)
      | (mi', Inr info) \<Rightarrow>
          (case buildMethodBody (url @ path) methodType (params info) (pathParams info)
                  (isMapped info) of
             Inl e \<Rightarrow> ((methodType, mi') # rest, Inl e)
           | Inr methodBody \<Rightarrow>
               (case buildMethods apiClassName url path n schemas rest of
                  (rest', r) \<Rightarrow>
                    ((methodType, mi') # rest',
                     case r of
                       Inl e \<Rightarrow> Inl e
                     | Inr methods \<Rightarrow>
                         Inr (methodText
                                (buildMethodDoc (summary mi) (deprecated mi) (params info))
                                (if 1 < n then toNormalCase methodType else [])
                                (buildMethodName apiClassName path)
                                (buildMethodParams (params info))
                                methodBody
                              # methods)))))"

definition buildEndpoint ::
  "string \<Rightarrow> string \<Rightarrow> string \<Rightarrow> (string \<times> methodInfo) list \<Rightarrow> definitions
     \<Rightarrow> (string \<times> methodInfo) list \<times> (error + string)" where
  "buildEndpoint apiClassName url path endpointData schemas =
     (case buildMethods apiClassName url path (length endpointData) schemas endpointData of
        (endpointData', Inl e) \<Rightarrow> (endpointData', Inl e)
      | (endpointData', Inr methods) \<Rightarrow> (endpointData', Inr (join (newline @ newline) methods)))"


section \<open>Building the API tree\<close>

text \<open>
  The metadata of an API as \<^verbatim>\<open>fetchMeta\<close> records it, a schema document
  (\<^verbatim>\<open>doc.paths\<close>, \<^verbatim>\<open>doc.definitions\<close>), and an entry of the tree. The network is a
  function from the address of a request to its outcome.
\<close>

record apiMeta =
  m_url :: string
  m_versions :: "string list"

record document =
  doc_paths :: "(string \<times> (string \<times> methodInfo) list) list"
  doc_definitions :: definitions

record apiEntry =
  meta :: apiMeta
  versions :: "(string \<times> string list) list"

type_synonym network = "string \<Rightarrow> error + document"

text \<open>The loop over \<^verbatim>\<open>Object.entries(doc.paths)\<close> of the \<^verbatim>\<open>then\<close> callback.\<close>

fun compilePaths ::
  "string \<Rightarrow> string \<Rightarrow> definitions \<Rightarrow> (string \<times> (string \<times> methodInfo) list) list
     \<Rightarrow> error + string list" where
  "compilePaths apiName url schemas [] = Inr []"
| "compilePaths apiName url schemas ((path, methodData) # rest) =
     (case snd (buildEndpoint apiName url path methodData schemas) of
        Inl e \<Rightarrow> Inl e
      | Inr method \<Rightarrow>
          (case compilePaths apiName url schemas rest of
             Inl e \<Rightarrow> Inl e
           | Inr methods \<Rightarrow> Inr (method # methods)))"

text \<open>
  One element of \<^verbatim>\<open>docsRequests\<close>:
  \<^verbatim>\<open>client.get(`${data.url}/docs/json/${version}`).then(res => ...)\<close>. There is no
  \<^verbatim>\<open>catch\<close>: the promise is rejected when the request fails and when the callback throws.
\<close>

definition docsRequest :: "network \<Rightarrow> string \<Rightarrow> apiMeta \<Rightarrow> string \<Rightarrow> error + string list" where
  "docsRequest net apiName data version =
     (case net (m_url data @ ''/docs/json/'' @ version) of
        Inl e \<Rightarrow> Inl e
      | Inr doc \<Rightarrow> compilePaths apiName (m_url data) (doc_definitions doc) (doc_paths doc))"

text \<open>
  \<^verbatim>\<open>Promise.all\<close>: fulfilled when every promise is, rejected as soon as one is. Which
  rejection comes first is a matter of timing; the model reports the first in the order
  of the list.
\<close>

fun Promise_all :: "(error + 'a) list \<Rightarrow> error + 'a list" where
  "Promise_all [] = Inr []"
| "Promise_all (Inl e # rest) = Inl e"
| "Promise_all (Inr v # rest) =
     (case Promise_all rest of Inl e \<Rightarrow> Inl e | Inr vs \<Rightarrow> Inr (v # vs))"

text \<open>
  \<^verbatim>\<open>buildApiTree(apis)\<close>. A request that succeeds writes its entry
  \<^verbatim>\<open>apisTree[apiName].versions[version]\<close>; the tree is returned only if
  \<^verbatim>\<open>await Promise.all(docsRequests)\<close> does not throw.
\<close>

definition versionsOf :: "network \<Rightarrow> string \<Rightarrow> apiMeta \<Rightarrow> (string \<times> string list) list" where
  "versionsOf net apiName data =
     List.map_filter
       (\<lambda>version. case docsRequest net apiName data version of
                     Inl e \<Rightarrow> None
                   | Inr methods \<Rightarrow> Some (version, methods))
       (m_versions data)"

definition buildApiTree ::
  "network \<Rightarrow> (string \<times> apiMeta) list \<Rightarrow> error + (string \<times> apiEntry) list" where
  "buildApiTree net apis =
     (let docsRequests =
            concat (map (\<lambda>(apiName, data).
                           map (docsRequest net apiName data) (m_versions data)) apis);
          apisTree =
            map (\<lambda>(apiName, data).
                   (apiName, \<lparr> meta = data, versions = versionsOf net apiName data \<rparr>)) apis
      in case Promise_all docsRequests of
           Inl e \<Rightarrow> Inl e
         | Inr results \<Rightarrow> Inr apisTree)"

text \<open>
  \<^verbatim>\<open>main()\<close> with its two handlers, from the list of addresses and the metadata the
  first two stages found: the run either reaches \<^verbatim>\<open>createAPI(apisTree)\<close> or ends in the
  \<^verbatim>\<open>catch\<close> handler that prints the error.
\<close>

datatype run = FilesGenerated "(string \<times> apiEntry) list" | ErrorDetected error

definition main :: "network \<Rightarrow> string list \<Rightarrow> (string \<times> apiMeta) list \<Rightarrow> run" where
  "main net apisList apis =
     (if apisList \<noteq> [] then
        (case buildApiTree net apis of
           Inl e \<Rightarrow> ErrorDetected e
         | Inr apisTree \<Rightarrow> FilesGenerated apisTree)
      else ErrorDetected (Error ''API list not found.''))"

section \<open>The generated factory and the generated signatures\<close>

text \<open>The JavaScript values the expressions below compare.\<close>

datatype jsval = JUndefined | JNull | JBool bool | JNum int | JStr string

fun truthy :: "jsval \<Rightarrow> bool" where
  "truthy JUndefined = False"
| "truthy JNull = False"
| "truthy (JBool b) = b"
| "truthy (JNum n) = (n \<noteq> 0)"
| "truthy (JStr s) = (s \<noteq> [])"

text \<open>
  \<^verbatim>\<open>createRBXClient\<close> of the generated \<^verbatim>\<open>index.js\<close> (\<^verbatim>\<open>createIndex\<close>, lines 250 to 265).
  The outcome of \<^verbatim>\<open>RBXClient.Users['v1'].Authenticated()\<close> is the argument: the user's
  data, or what was thrown, of which the handler reads \<^verbatim>\<open>status\<close>. The test of the
  handler is \<^verbatim>\<open>!err.status !== 401\<close>: the negation is a boolean, compared with a number by
  strict inequality.
\<close>

record userInfo =
  ui_id :: int
  ui_name :: string

record thrown =
  t_status :: jsval

record RbxApiClient =
  userID :: "int option"
  userName :: "string option"

definition createRBXClient :: "thrown + userInfo \<Rightarrow> thrown + RbxApiClient" where
  "createRBXClient lookup =
     (let RBXClient = \<lparr> userID = None, userName = None \<rparr> in
      case lookup of
        Inr info \<Rightarrow> Inr (RBXClient \<lparr> userID := Some (ui_id info), userName := Some (ui_name info) \<rparr>)
      | Inl err \<Rightarrow>
          if JBool (\<not> truthy (t_status err)) \<noteq> JNum 401 then Inl err else Inr RBXClient)"






section \<open>The response interceptor of the client\<close>

text \<open>
  \<^verbatim>\<open>createClient\<close> of \<^verbatim>\<open>dist/client.js\<close>: the handler of failed responses. Of the error
  it reads \<^verbatim>\<open>message\<close>, \<^verbatim>\<open>config\<close> (its \<^verbatim>\<open>url\<close>) and \<^verbatim>\<open>response\<close>: \<^verbatim>\<open>status\<close>, the header
  \<^verbatim>\<open>x-csrf-token\<close> and \<^verbatim>\<open>data.errors\<close> (the \<^verbatim>\<open>message\<close> of each entry). The state is the
  default header \<^verbatim>\<open>X-CSRF-TOKEN\<close> of the client and the number of calls of
  \<^verbatim>\<open>onTokenExpired\<close>. The response carries a \<^verbatim>\<open>data\<close> object, as the responses of the
  service do.
\<close>

record response =
  resp_status :: int
  resp_xcsrf :: "string option"
  resp_errors :: "string option list option"

record axiosError =
  err_message :: string
  err_config_url :: "string option"
  err_response :: "response option"

record clientState =
  xcsrfDefault :: "string option"
  tokenExpiredCalls :: nat

datatype settled =
    Rejected axiosError
  | RejectedText string
  | ResolvedUndefined
  | RefreshThenReplay string

definition XCSRFEndpoint :: string where
  "XCSRFEndpoint = ''https://auth.roblox.com/v2/logout''"

text \<open>
  The last statements of the handler:
  \<^verbatim>\<open>if (errors && errors.length) err.message = `${err.message}: ${errors[0].message}`\<close>.
\<close>

definition appendFirstError :: "response \<Rightarrow> axiosError \<Rightarrow> axiosError" where
  "appendFirstError resp err =
     (case resp_errors resp of
        Some (first # others) \<Rightarrow>
          err \<lparr> err_message := err_message err @ '': '' @ undefined_str first \<rparr>
      | _ \<Rightarrow> err)"

definition onRejected :: "bool \<Rightarrow> clientState \<Rightarrow> axiosError \<Rightarrow> clientState \<times> settled" where
  "onRejected onTokenExpired st err =
     (case (err_config_url err, err_response err) of
        (Some url, Some resp) \<Rightarrow>
          if resp_status resp = 401 then
            ((if onTokenExpired then st \<lparr> tokenExpiredCalls := Suc (tokenExpiredCalls st) \<rparr> else st),
             Rejected (appendFirstError resp err))
          else if resp_status resp = 403 then
            (if url \<noteq> XCSRFEndpoint then (st, RefreshThenReplay url)
             else if truthy_str (resp_xcsrf resp) then
               (st \<lparr> xcsrfDefault := resp_xcsrf resp \<rparr>, ResolvedUndefined)
             else (st, RejectedText ''Cannot get X-CSRF-TOKEN, change API endpoint''))
          else (st, Rejected (appendFirstError resp err))
      | _ \<Rightarrow> (st, Rejected err))"


section \<open>Sample inputs\<close>

text \<open>Concrete documents, errors and calls at which the properties below are evaluated.\<close>

definition lookupFailure500 :: thrown where
  "lookupFailure500 = \<lparr> t_status = JNum 500 \<rparr>"

definition lookupFailureNoStatus :: thrown where
  "lookupFailureNoStatus = \<lparr> t_status = JUndefined \<rparr>"

definition unauthorized :: axiosError where
  "unauthorized =
     \<lparr> err_message = ''Request failed with status code 401'',
       err_config_url = Some ''https://users.roblox.com/v1/users/authenticated'',
       err_response =
         Some \<lparr> resp_status = 401, resp_xcsrf = None,
                resp_errors = Some [Some ''Authorization has been denied for this request.''] \<rparr> \<rparr>"

definition freshClient :: clientState where
  "freshClient = \<lparr> xcsrfDefault = None, tokenExpiredCalls = 0 \<rparr>"

definition userIdParam :: parameter where
  "userIdParam =
     \<lparr> p_name = ''userId'', p_in = Some ''path'', p_type = Some ''integer'',
       p_description = Some ''The user id.'', p_enum = None, p_required = True,
       p_schema = None \<rparr>"

definition sortOrderParam :: parameter where
  "sortOrderParam =
     \<lparr> p_name = ''sortOrder'', p_in = Some ''query'', p_type = Some ''string'',
       p_description = Some ''The order.'', p_enum = Some [''Asc'', ''Desc''],
       p_required = True, p_schema = None \<rparr>"

definition getFriends :: methodInfo where
  "getFriends =
     \<lparr> parameters = Some [userIdParam, sortOrderParam],
       summary = Some ''Gets the friends of a user.'', deprecated = False \<rparr>"

definition userIdsParam :: parameter where
  "userIdsParam =
     \<lparr> p_name = ''userIds'', p_in = Some ''body'', p_type = None,
       p_description = Some ''The user ids.'', p_enum = None, p_required = True,
       p_schema = Some (Schema None (Some ''array'') None None
                          (Some (Schema None (Some ''integer'') None None None))) \<rparr>"

definition postPresence :: methodInfo where
  "postPresence =
     \<lparr> parameters = Some [userIdsParam],
       summary = Some ''Gets the presence of users.'', deprecated = False \<rparr>"

definition requestParam :: parameter where
  "requestParam =
     \<lparr> p_name = ''request'', p_in = Some ''body'', p_type = None,
       p_description = None, p_enum = None, p_required = True,
       p_schema = Some (Schema (Some ''#/definitions/SendMessageRequest'') None None None None) \<rparr>"

definition sendMessageProperties :: "(string \<times> schema) list" where
  "sendMessageProperties =
     [(''message'', Schema None (Some ''string'') None None None),
      (''decorators'', Schema None (Some ''array'') None None
                         (Some (Schema None (Some ''string'') None None None))),
      (''conversationId'', Schema None (Some ''integer'') None None None)]"

definition sendMessageRequest :: schema where
  "sendMessageRequest = Schema None (Some ''object'') None (Some sendMessageProperties) None"

definition chatDefinitions :: definitions where
  "chatDefinitions = [(''SendMessageRequest'', sendMessageRequest)]"

definition sendMessage :: methodInfo where
  "sendMessage =
     \<lparr> parameters = Some [requestParam], summary = Some ''Sends a message.'',
       deprecated = False \<rparr>"

definition uploadParam :: parameter where
  "uploadParam =
     \<lparr> p_name = ''upload'', p_in = Some ''formData'', p_type = None,
       p_description = None, p_enum = None, p_required = True,
       p_schema = Some (Schema None (Some ''object'') None
                          (Some [(''name'', Schema None (Some ''string'') None None None)])
                          None) \<rparr>"

definition postUpload :: methodInfo where
  "postUpload =
     \<lparr> parameters = Some [uploadParam], summary = None, deprecated = False \<rparr>"

definition messageLogical :: param where
  "messageLogical =
     \<lparr> name = ''message'', ptype = Some ''string'', description = [],
       out = \<lparr> out_param = ''request'', location = Some ''body'' \<rparr>,
       enum = None, required = True \<rparr>"

definition nameLogical :: param where
  "nameLogical =
     \<lparr> name = ''name'', ptype = Some ''string'', description = [],
       out = \<lparr> out_param = ''upload'', location = Some ''formData'' \<rparr>,
       enum = None, required = True \<rparr>"

definition cookieLogical :: param where
  "cookieLogical =
     \<lparr> name = ''session'', ptype = Some ''string'', description = [],
       out = \<lparr> out_param = ''session'', location = Some ''cookie'' \<rparr>,
       enum = None, required = False \<rparr>"

definition fileLogical :: param where
  "fileLogical =
     \<lparr> name = ''file'', ptype = Some ''file'', description = [],
       out = \<lparr> out_param = ''file'', location = Some ''formData'' \<rparr>,
       enum = None, required = True \<rparr>"




definition usersDocument :: document where
  "usersDocument =
     \<lparr> doc_paths = [(''/v1/users/{userId}/friends'', [(''get'', getFriends)])],
       doc_definitions = [] \<rparr>"

definition usersApis :: "(string \<times> apiMeta) list" where
  "usersApis =
     [(''Users'', \<lparr> m_url = ''https://users.roblox.com'', m_versions = [''v1'', ''v2''] \<rparr>)]"

definition onlyV1 :: network where
  "onlyV1 address =
     (if address = ''https://users.roblox.com/docs/json/v1'' then Inr usersDocument
      else Inl (RequestFailed address))"

definition everyVersion :: network where
  "everyVersion address = Inr usersDocument"

definition friendsMethod :: string where
  "friendsMethod = ''/** Gets the friends of a user.\<newline>* @param {('Asc'|'Desc')} sortOrder The order.\<newline>* @param {integer} userId The user id.\<newline>*/\<newline>    Friends({ sortOrder = required('sortOrder'), userId = required('userId') } = {}) {\<newline>      return this.client({\<newline>    method: 'get',\<newline>url: `https://users.roblox.com/v1/users/${userId}/friends`,\<newline>params: {'sortOrder': sortOrder}\<newline>  });\<newline>    }''"

definition usersTree :: "(string \<times> apiEntry) list" where
  "usersTree =
     [(''Users'',
       \<lparr> meta = \<lparr> m_url = ''https://users.roblox.com'', m_versions = [''v1'', ''v2''] \<rparr>,
         versions = [(''v1'', [friendsMethod]), (''v2'', [friendsMethod])] \<rparr>)]"

definition forbidden :: axiosError where
  "forbidden =
     \<lparr> err_message = ''Request failed with status code 403'',
       err_config_url = Some ''https://chat.roblox.com/v2/send-message'',
       err_response =
         Some \<lparr> resp_status = 403, resp_xcsrf = None,
                resp_errors = Some [Some ''Token Validation Failed''] \<rparr> \<rparr>"

definition someUser :: userInfo where
  "someUser = \<lparr> ui_id = 1, ui_name = ''Roblox'' \<rparr>"

definition filesDocument :: document where
  "filesDocument =
     \<lparr> doc_paths = [(''/v1/upload'', [(''post'', postUpload)])], doc_definitions = [] \<rparr>"

definition filesNetwork :: network where
  "filesNetwork address = Inr filesDocument"

definition filesApis :: "(string \<times> apiMeta) list" where
  "filesApis = [(''Files'', \<lparr> m_url = ''https://files.roblox.com'', m_versions = [''v1''] \<rparr>)]"

section \<open>The factory's identity lookup\<close>

text \<open>
  C3 (amended). The factory attempts the identity lookup. When the lookup succeeds, the
  container is returned with the user's id and name. When the lookup fails with a
  failure whose status is not 401, the factory does not tolerate it: it throws the same
  failure again, and no container is returned.
\<close>

theorem createRBXClient_rethrows:
  "createRBXClient (Inr info) =
     Inr \<lparr> userID = Some (ui_id info), userName = Some (ui_name info) \<rparr>
   \<and> (t_status err \<noteq> JNum 401 \<longrightarrow> createRBXClient (Inl err) = Inl err)"
  by (simp add: createRBXClient_def)

text \<open>
  The theorem at a lookup that succeeds and at a failure without a status, such as a
  network error.
\<close>

theorem createRBXClient_rethrows_witness:
  "createRBXClient (Inr someUser) = Inr \<lparr> userID = Some 1, userName = Some ''Roblox'' \<rparr>
   \<and> t_status lookupFailureNoStatus \<noteq> JNum 401
   \<and> createRBXClient (Inl lookupFailureNoStatus) = Inl lookupFailureNoStatus"
  using createRBXClient_rethrows [of someUser lookupFailureNoStatus]
  by (simp add: lookupFailureNoStatus_def someUser_def)

text \<open>
  C3 as stated fails: a lookup that fails with status 500 is not tolerated, the factory
  fails with it.
\<close>

theorem createRBXClient_non401_counterexample:
  "createRBXClient (Inl lookupFailure500) = Inl lookupFailure500"
  by (simp add: createRBXClient_def lookupFailure500_def)

text \<open>
  The test \<^verbatim>\<open>!err.status !== 401\<close> holds for every status, 401 included, so every
  failure of the lookup is thrown again.
\<close>

lemma createRBXClient_always_rethrows: "createRBXClient (Inl err) = Inl err"
  by (simp add: createRBXClient_def)

section \<open>The interceptor on error responses\<close>

text \<open>
  C4 (amended). For a failed response with status 401 the handler calls the expiry
  callback once if one was supplied and does not replay the request: it rejects with
  the error. The message of the first entry of the error list is appended to the
  error's message on every error response whose status is not 403, status 401 included;
  a response with status 403 is never rejected with the error.
\<close>

theorem onRejected_error_response:
  assumes "err_config_url err = Some url" and "err_response err = Some resp"
  shows "(resp_status resp = 401 \<longrightarrow>
            fst (onRejected cb st err) =
              (if cb then st \<lparr> tokenExpiredCalls := Suc (tokenExpiredCalls st) \<rparr> else st))
       \<and> (resp_status resp \<noteq> 403 \<longrightarrow>
            snd (onRejected cb st err) =
              Rejected (case resp_errors resp of
                          Some (first # others) \<Rightarrow>
                            err \<lparr> err_message := err_message err @ '': '' @ undefined_str first \<rparr>
                        | _ \<Rightarrow> err))
       \<and> (resp_status resp = 403 \<longrightarrow> (\<forall>e. snd (onRejected cb st err) \<noteq> Rejected e))"
  using assms by (simp add: onRejected_def appendFirstError_def)

text \<open>
  The theorem at a 401 response that carries an error list, with a callback, and at a
  403 response of another endpoint.
\<close>

theorem onRejected_error_response_witness:
  "fst (onRejected True freshClient unauthorized) = freshClient \<lparr> tokenExpiredCalls := 1 \<rparr>
   \<and> snd (onRejected True freshClient unauthorized) =
       Rejected (unauthorized \<lparr> err_message :=
         ''Request failed with status code 401: Authorization has been denied for this request.'' \<rparr>)
   \<and> (\<forall>e. snd (onRejected True freshClient forbidden) \<noteq> Rejected e)"
  using onRejected_error_response [of unauthorized
      "''https://users.roblox.com/v1/users/authenticated''"
      "\<lparr> resp_status = 401, resp_xcsrf = None,
         resp_errors = Some [Some ''Authorization has been denied for this request.''] \<rparr>"
      True freshClient]
    onRejected_error_response [of forbidden
      "''https://chat.roblox.com/v2/send-message''"
      "\<lparr> resp_status = 403, resp_xcsrf = None,
         resp_errors = Some [Some ''Token Validation Failed''] \<rparr>"
      True freshClient]
  by (simp add: unauthorized_def forbidden_def undefined_str_def freshClient_def)

text \<open>
  C4 as stated fails: the error of a 401 response is changed before it is propagated.
\<close>

theorem onRejected_401_counterexample:
  "snd (onRejected True freshClient unauthorized) =
     Rejected (unauthorized \<lparr> err_message :=
       ''Request failed with status code 401: Authorization has been denied for this request.'' \<rparr>)"
  by (simp add: onRejected_def freshClient_def unauthorized_def appendFirstError_def
        undefined_str_def)


section \<open>The order of the parameters after the sort\<close>

text \<open>
  With the comparator of line 307 the binary search puts a required pivot at the front
  of the sorted part and leaves an optional pivot behind it, and the first run is
  reversed exactly when its second element is required. The sort therefore returns the
  required parameters first, in the reverse of their original order, followed by the
  optional parameters in their original order.
\<close>

lemma binarySearch_comparefn_aux:
  "c = comparefn \<Longrightarrow>
   binarySearch c pivot workArray left right =
     (if p_required pivot then left else max left right)"
proof (induction c pivot workArray left right rule: binarySearch.induct)
  case (1 c pivot workArray left right)
  show ?case
  proof (cases "left < right")
    case False
    then show ?thesis by (simp add: binarySearch.simps [of _ pivot workArray left right])
  next
    case True
    show ?thesis
    proof (cases "p_required pivot")
      case True
      with \<open>left < right\<close> "1.IH"(1) [OF \<open>left < right\<close> refl refl] "1.prems"
      show ?thesis
        by (simp add: binarySearch.simps [of _ pivot workArray left right] comparefn_def Let_def)
    next
      case False
      with \<open>left < right\<close> "1.IH"(2) [OF \<open>left < right\<close> refl refl] "1.prems"
      show ?thesis
        by (simp add: binarySearch.simps [of _ pivot workArray left right] comparefn_def Let_def)
    qed
  qed
qed

lemma binarySearch_comparefn:
  "binarySearch comparefn pivot workArray left right =
     (if p_required pivot then left else max left right)"
  by (rule binarySearch_comparefn_aux) simp

lemma binaryInsertionSort_comparefn:
  "binaryInsertionSort comparefn workArray rest =
     rev (filter p_required rest) @ workArray @ filter (\<lambda>p. \<not> p_required p) rest"
  by (induction rest arbitrary: workArray) (simp_all add: binarySearch_comparefn)

lemma countRun_descending:
  "countRun comparefn True prev rest = length (takeWhile p_required rest)"
  by (induction rest arbitrary: prev) (simp_all add: comparefn_def)

lemma countRun_ascending:
  "countRun comparefn False prev rest = length (takeWhile (\<lambda>p. \<not> p_required p) rest)"
  by (induction rest arbitrary: prev) (simp_all add: comparefn_def)

lemma filter_takeWhile_dropWhile:
  "filter P xs = takeWhile P xs @ filter P (dropWhile P xs)"
  by (induction xs) simp_all

lemma filter_not_dropWhile:
  "filter (\<lambda>x. \<not> P x) xs = filter (\<lambda>x. \<not> P x) (dropWhile P xs)"
  by (induction xs) simp_all

lemma countAndMakeRun_descending:
  assumes "p_required a1"
  shows "countAndMakeRun comparefn (a0 # a1 # rest) =
           (2 + length (takeWhile p_required rest),
            rev (takeWhile p_required rest) @ a1 # a0 # dropWhile p_required rest)"
proof -
  have "take (length (takeWhile p_required rest)) rest = takeWhile p_required rest"
    by (simp flip: takeWhile_eq_take)
  moreover have "drop (length (takeWhile p_required rest)) rest = dropWhile p_required rest"
    by (simp flip: dropWhile_eq_drop)
  ultimately show ?thesis using assms
    by (simp add: Let_def countRun_descending) (simp add: comparefn_def)
qed

lemma countAndMakeRun_ascending:
  assumes "\<not> p_required a1"
  shows "countAndMakeRun comparefn (a0 # a1 # rest) =
           (2 + length (takeWhile (\<lambda>p. \<not> p_required p) rest), a0 # a1 # rest)"
  using assms by (simp add: Let_def countRun_ascending) (simp add: comparefn_def)

lemma Array_sort_comparefn:
  "Array_sort comparefn xs = rev (filter p_required xs) @ filter (\<lambda>p. \<not> p_required p) xs"
proof (cases xs)
  case Nil
  then show ?thesis by (simp add: Array_sort_def)
next
  case (Cons a0 ys)
  show ?thesis
  proof (cases ys)
    case Nil
    with Cons show ?thesis by (simp add: Array_sort_def)
  next
    case (Cons a1 rest)
    show ?thesis
    proof (cases "p_required a1")
      case True
      have f1: "filter p_required rest =
                  takeWhile p_required rest @ filter p_required (dropWhile p_required rest)"
        by (rule filter_takeWhile_dropWhile)
      have f2: "filter (\<lambda>p. \<not> p_required p) rest =
                  filter (\<lambda>p. \<not> p_required p) (dropWhile p_required rest)"
        by (rule filter_not_dropWhile)
      have "Array_sort comparefn (a0 # a1 # rest) =
              binaryInsertionSort comparefn (rev (takeWhile p_required rest) @ [a1, a0])
                (dropWhile p_required rest)"
        by (simp add: Array_sort_def countAndMakeRun_descending [OF True] del: countAndMakeRun.simps)
      also have "\<dots> = rev (filter p_required (a0 # a1 # rest))
                       @ filter (\<lambda>p. \<not> p_required p) (a0 # a1 # rest)"
        using True f1 f2 by (simp add: binaryInsertionSort_comparefn)
      finally show ?thesis using \<open>xs = a0 # ys\<close> \<open>ys = a1 # rest\<close> by simp
    next
      case False
      have f1: "filter (\<lambda>p. \<not> p_required p) rest =
                  takeWhile (\<lambda>p. \<not> p_required p) rest
                  @ filter (\<lambda>p. \<not> p_required p) (dropWhile (\<lambda>p. \<not> p_required p) rest)"
        by (rule filter_takeWhile_dropWhile)
      have f2: "filter p_required rest =
                  filter p_required (dropWhile (\<lambda>p. \<not> p_required p) rest)"
        using filter_not_dropWhile [of "\<lambda>p. \<not> p_required p" rest] by simp
      have t: "take (length (takeWhile (\<lambda>p. \<not> p_required p) rest)) rest
                 = takeWhile (\<lambda>p. \<not> p_required p) rest"
        by (simp flip: takeWhile_eq_take)
      have d: "drop (length (takeWhile (\<lambda>p. \<not> p_required p) rest)) rest
                 = dropWhile (\<lambda>p. \<not> p_required p) rest"
        by (simp flip: dropWhile_eq_drop)
      have "Array_sort comparefn (a0 # a1 # rest) =
              binaryInsertionSort comparefn (a0 # a1 # takeWhile (\<lambda>p. \<not> p_required p) rest)
                (dropWhile (\<lambda>p. \<not> p_required p) rest)"
        by (simp add: Array_sort_def countAndMakeRun_ascending [OF False] t d del: countAndMakeRun.simps)
      also have "\<dots> = rev (filter p_required (a0 # a1 # rest))
                       @ filter (\<lambda>p. \<not> p_required p) (a0 # a1 # rest)"
        using False f1 f2 by (simp add: binaryInsertionSort_comparefn)
      finally show ?thesis using \<open>xs = a0 # ys\<close> \<open>ys = a1 # rest\<close> by simp
    qed
  qed
qed

text \<open>
  A second run of the sort reverses the required parameters again: only after two runs
  is the list the stable partition of the original one. A list of one element is left
  as it is.
\<close>

lemma Array_sort_twice:
  "Array_sort comparefn (Array_sort comparefn xs) =
     filter p_required xs @ filter (\<lambda>p. \<not> p_required p) xs"
  by (simp add: Array_sort_comparefn)

lemma Array_sort_single: "Array_sort comparefn [x] = [x]"
  by (simp add: Array_sort_comparefn)

text \<open>
  C7. The declared parameters are to be reordered by a stable partition: required ones
  first, the parameters of equal required-ness in their original order. The code
  does not keep the order of the required parameters: the operation \<open>getFriends\<close>
  declares \<^verbatim>\<open>userId\<close> and then \<^verbatim>\<open>sortOrder\<close>, both required, and the sort leaves
  \<^verbatim>\<open>sortOrder\<close> before \<^verbatim>\<open>userId\<close>.
\<close>

theorem sort_reverses_required:
  "sortParameters getFriends = getFriends \<lparr> parameters := Some [sortOrderParam, userIdParam] \<rparr>"
  by (simp add: sortParameters_def getFriends_def Array_sort_comparefn userIdParam_def
        sortOrderParam_def)

section \<open>Parameter resolution on the sample operations\<close>

text \<open>
  What the two branches of \<^verbatim>\<open>buildParamsInfo\<close> do in general. A single parameter with a
  schema that does not resolve to an object gives no logical parameter. In every case
  that takes the loop over all parameters, each declared parameter gives one logical
  parameter, with its normalised name and the location \<^verbatim>\<open>mkOut\<close> decides; an array
  schema is recorded with its element type there. The single-object loop records the
  type of the property as it stands.
\<close>

lemma paramsInfoOf_single_schema_not_object:
  assumes "p_schema prm = Some node"
    and "extractSchemaNode (Some node) schemas = Inr (Some sch)"
    and "s_type sch \<noteq> Some ''object''"
  shows "paramsInfoOf path [prm] schemas =
           Inr \<lparr> params = [], pathParams = buildPathParams path, isMapped = False \<rparr>"
  using assms by (simp add: paramsInfoOf_def Let_def)

lemma independentParams_each:
  "independentParams pps schemas ps = Inr ind \<Longrightarrow>
     map out ind = map (mkOut pps) ps \<and> map name ind = map (normalizeName \<circ> p_name) ps
     \<and> map required ind = map p_required ps"
proof (induction ps arbitrary: ind)
  case Nil
  then show ?case by simp
next
  case (Cons prm ps)
  from Cons.prems obtain p rest where
    p: "independentParam pps schemas prm = Inr p"
    and rest: "independentParams pps schemas ps = Inr rest"
    and ind: "ind = p # rest"
    by (auto split: sum.splits)
  from p have "out p = mkOut pps prm \<and> name p = normalizeName (p_name prm)
      \<and> required p = p_required prm"
    by (auto simp: independentParam_def split: sum.splits)
  with Cons.IH [OF rest] ind show ?case by simp
qed

lemma paramsInfoOf_independent:
  assumes "length ps \<noteq> 1 \<or> p_schema (hd ps) = None"
    and "paramsInfoOf path ps schemas = Inr info"
  shows "\<not> isMapped info
       \<and> map out (params info) = map (mkOut (buildPathParams path)) ps
       \<and> map name (params info) = map (normalizeName \<circ> p_name) ps"
proof -
  from assms obtain ind where
    ind: "independentParams (buildPathParams path) schemas ps = Inr ind"
    and info: "info = \<lparr> params = ind, pathParams = buildPathParams path, isMapped = False \<rparr>"
    by (auto simp: paramsInfoOf_def Let_def split: list.splits option.splits sum.splits)
  from independentParams_each [OF ind] info show ?thesis by simp
qed

lemma independentParam_array_type:
  assumes "p_schema prm = Some node"
    and "extractSchemaNode (Some node) schemas = Inr (Some sch)"
    and "s_type sch = Some ''array''"
    and "extractSchemaNode (s_items sch) schemas = Inr (Some items)"
    and "independentParam pps schemas prm = Inr p"
  shows "ptype p = Some (''array<'' @ undefined_str (s_type items) @ ''>'')"
  using assms by (auto simp: independentParam_def arrayType_def)

lemma mappedParams_types:
  "mappedParams ou schemas props = Inr ps \<Longrightarrow> map ptype ps = map (s_type \<circ> snd) props"
  by (induction props arbitrary: ps) (auto split: sum.splits if_splits)

text \<open>
  The location follows the read \<^verbatim>\<open>pathParams[param.name]\<close>: a name that
  \<^verbatim>\<open>Object.prototype\<close> defines is found there although the path has no such placeholder.
\<close>

lemma inherited_name_location:
  "location (mkOut (buildPathParams ''/v1/users'')
       \<lparr> p_name = ''toString'', p_in = Some ''query'', p_type = Some ''string'',
         p_description = None, p_enum = None, p_required = False, p_schema = None \<rparr>) =
     Some ''path''"
  by code_simp



text \<open>
  C8. The type recorded for an array-typed property, and shown in the documentation, is
  to be \<^verbatim>\<open>array<elementType>\<close>. In the single-object case the code computes that text
  and then records \<^verbatim>\<open>propInfo.type\<close>: the property \<^verbatim>\<open>decorators\<close> of \<open>sendMessage\<close>, an
  array of strings, is documented as \<^verbatim>\<open>{array}\<close>.
\<close>

theorem array_property_type_not_resolved:
  "snd (buildEndpoint ''Chat'' ''https://chat.roblox.com'' ''/v2/send-message''
          [(''post'', sendMessage)] chatDefinitions) =
   Inr ''/** Sends a message.\<newline>* @param {string} message \<newline>* @param {array} decorators \<newline>* @param {integer} conversationId \<newline>*/\<newline>    SendMessage({ message = required('message'), decorators = required('decorators'), conversationId = required('conversationId') } = {}) {\<newline>      return this.client({\<newline>    method: 'post',\<newline>url: `https://chat.roblox.com/v2/send-message`,\<newline>data: {'message': message,\<newline>'decorators': decorators,\<newline>'conversationId': conversationId}\<newline>  });\<newline>    }''"
  by code_simp

text \<open>
  C5. Outside the single-object case every declared parameter is to become one logical
  parameter, a single parameter whose schema is not an object included. The code has no
  branch for that parameter: the operation \<open>postPresence\<close> declares one body parameter
  whose schema is an array, and the result has no logical parameter at all; the
  generated method takes no argument and sends no data.
\<close>

theorem single_schema_parameter_dropped:
  "buildParamsInfo ''/v1/presence/users'' postPresence [] =
     (postPresence, Inr \<lparr> params = [], pathParams = [], isMapped = False \<rparr>)
   \<and> snd (buildEndpoint ''Presence'' ''https://presence.roblox.com'' ''/v1/presence/users''
            [(''post'', postPresence)] []) =
     Inr ''/** Gets the presence of users. */\<newline>    Users() {\<newline>      return this.client({\<newline>    method: 'post',\<newline>url: `https://presence.roblox.com/v1/presence/users`\<newline>  });\<newline>    }''"
  by code_simp

text \<open>
  C9. Compiling the same input twice is to give the same method text. The sort is in
  place and reverses the required parameters each time it runs, so the second
  compilation of \<open>getFriends\<close> lists the parameters in the other order.
\<close>

theorem second_compilation_differs:
  "snd (buildEndpoint ''Friends'' ''https://friends.roblox.com'' ''/v1/users/{userId}/friends''
          [(''get'', getFriends)] []) =
   Inr ''/** Gets the friends of a user.\<newline>* @param {('Asc'|'Desc')} sortOrder The order.\<newline>* @param {integer} userId The user id.\<newline>*/\<newline>    UsersFriends({ sortOrder = required('sortOrder'), userId = required('userId') } = {}) {\<newline>      return this.client({\<newline>    method: 'get',\<newline>url: `https://friends.roblox.com/v1/users/${userId}/friends`,\<newline>params: {'sortOrder': sortOrder}\<newline>  });\<newline>    }''
   \<and> snd (buildEndpoint ''Friends'' ''https://friends.roblox.com'' ''/v1/users/{userId}/friends''
          (fst (buildEndpoint ''Friends'' ''https://friends.roblox.com''
                  ''/v1/users/{userId}/friends'' [(''get'', getFriends)] [])) []) =
   Inr ''/** Gets the friends of a user.\<newline>* @param {integer} userId The user id.\<newline>* @param {('Asc'|'Desc')} sortOrder The order.\<newline>*/\<newline>    UsersFriends({ userId = required('userId'), sortOrder = required('sortOrder') } = {}) {\<newline>      return this.client({\<newline>    method: 'get',\<newline>url: `https://friends.roblox.com/v1/users/${userId}/friends`,\<newline>params: {'sortOrder': sortOrder}\<newline>  });\<newline>    }''"
  by code_simp

section \<open>Parameter locations in the method body\<close>

lemma independentStep_supported:
  assumes "location (out p) \<in> {Some ''path'', Some ''query'', Some ''header'', Some ''body'',
             Some ''formData''}"
    and "independentStep pps p rq = Inl e"
  shows "e = Error ''[object Object]''"
  using assms by (auto simp: independentStep_def Let_def split: if_splits)

lemma independentStep_unsupported:
  assumes "location (out p) \<notin> {Some ''path'', Some ''query'', Some ''header'', Some ''body'',
             Some ''formData''}"
  shows "independentStep pps p rq =
           Inl (Error (''Unsupported parameter location: '' @ undefined_str (location (out p))))"
  using assms by (simp add: independentStep_def Let_def)

lemma independentLoop_supported:
  assumes "list_all (\<lambda>p. location (out p) \<in> {Some ''path'', Some ''query'', Some ''header'',
             Some ''body'', Some ''formData''}) ps"
    and "independentLoop pps ps rq = Inl e"
  shows "e = Error ''[object Object]''"
  using assms
proof (induction ps arbitrary: rq)
  case Nil
  then show ?case by simp
next
  case (Cons p ps)
  show ?case
  proof (cases "independentStep pps p rq")
    case (Inl e')
    with Cons.prems show ?thesis
      using independentStep_supported [of p pps rq e'] by simp
  next
    case (Inr rq')
    with Cons.prems Cons.IH [of rq'] show ?thesis by simp
  qed
qed

lemma independentLoop_unsupported:
  assumes "\<not> list_all (\<lambda>p. location (out p) \<in> {Some ''path'', Some ''query'', Some ''header'',
             Some ''body'', Some ''formData''}) ps"
  shows "\<exists>e. independentLoop pps ps rq = Inl e"
  using assms
proof (induction ps arbitrary: rq)
  case Nil
  then show ?case by simp
next
  case (Cons p ps)
  show ?case
  proof (cases "independentStep pps p rq")
    case (Inl e')
    then show ?thesis by simp
  next
    case (Inr rq')
    then have "location (out p) \<in> {Some ''path'', Some ''query'', Some ''header'', Some ''body'',
             Some ''formData''}"
      using independentStep_unsupported [of p pps rq] by auto
    with Cons.prems have "\<not> list_all (\<lambda>p. location (out p) \<in> {Some ''path'', Some ''query'',
             Some ''header'', Some ''body'', Some ''formData''}) ps"
      by auto
    from Cons.IH [OF this, of rq'] Inr show ?thesis by simp
  qed
qed

text \<open>
  C2 (amended). In the independent case, when every logical parameter has one of the
  locations path, query, header, body and formData, the body is generated or the
  second-body error is raised, never the unsupported-location error; when some
  parameter has another location, generation fails with an error. In the grouped
  case the body is generated when the location of the group is path, query, header or
  body; for formData and for every other location the unsupported-location error is
  raised.
\<close>

theorem buildMethodBody_locations:
  "(list_all (\<lambda>p. location (out p) \<in> {Some ''path'', Some ''query'', Some ''header'',
        Some ''body'', Some ''formData''}) ps \<longrightarrow>
      (\<exists>text. buildMethodBody url methodType ps pps False = Inr text)
      \<or> buildMethodBody url methodType ps pps False = Inl (Error ''[object Object]''))
   \<and> (\<not> list_all (\<lambda>p. location (out p) \<in> {Some ''path'', Some ''query'', Some ''header'',
        Some ''body'', Some ''formData''}) ps \<longrightarrow>
      (\<exists>e. buildMethodBody url methodType ps pps False = Inl e))
   \<and> (ps \<noteq> [] \<and> location (out (last ps)) \<in> {Some ''path'', Some ''query'', Some ''header'',
        Some ''body''} \<longrightarrow>
      (\<exists>text. buildMethodBody url methodType ps pps True = Inr text))
   \<and> (ps \<noteq> [] \<and> location (out (last ps)) \<notin> {Some ''path'', Some ''query'', Some ''header'',
        Some ''body''} \<longrightarrow>
      buildMethodBody url methodType ps pps True =
        Inl (Error (''Unsupported parameter location: ''
                    @ undefined_str (location (out (last ps))))))"
proof (intro conjI impI)
  let ?rq0 = "\<lparr> fullURL = url, reqBody = None, reqParams = [], reqHeaders = [] \<rparr>"
  assume sup: "list_all (\<lambda>p. location (out p) \<in> {Some ''path'', Some ''query'', Some ''header'',
        Some ''body'', Some ''formData''}) ps"
  show "(\<exists>text. buildMethodBody url methodType ps pps False = Inr text)
      \<or> buildMethodBody url methodType ps pps False = Inl (Error ''[object Object]'')"
  proof (cases "independentLoop pps ps ?rq0")
    case (Inl e)
    with independentLoop_supported [OF sup Inl] show ?thesis
      by (simp add: buildMethodBody_def)
  next
    case (Inr rq)
    then show ?thesis by (simp add: buildMethodBody_def)
  qed
next
  assume "\<not> list_all (\<lambda>p. location (out p) \<in> {Some ''path'', Some ''query'', Some ''header'',
        Some ''body'', Some ''formData''}) ps"
  from independentLoop_unsupported [OF this]
  obtain e where "independentLoop pps ps
      \<lparr> fullURL = url, reqBody = None, reqParams = [], reqHeaders = [] \<rparr> = Inl e"
    by blast
  then show "\<exists>e. buildMethodBody url methodType ps pps False = Inl e"
    by (simp add: buildMethodBody_def)
next
  assume "ps \<noteq> [] \<and> location (out (last ps)) \<in> {Some ''path'', Some ''query'', Some ''header'',
        Some ''body''}"
  then show "\<exists>text. buildMethodBody url methodType ps pps True = Inr text"
    by (cases ps) (auto simp: buildMethodBody_def mappedStep_def Let_def)
next
  assume "ps \<noteq> [] \<and> location (out (last ps)) \<notin> {Some ''path'', Some ''query'', Some ''header'',
        Some ''body''}"
  then show "buildMethodBody url methodType ps pps True =
        Inl (Error (''Unsupported parameter location: ''
                    @ undefined_str (location (out (last ps)))))"
    by (cases ps) (auto simp: buildMethodBody_def mappedStep_def Let_def)
qed

text \<open>
  The theorem at a grouped body parameter, a grouped form parameter, an independent
  form parameter and an independent parameter with the location \<^verbatim>\<open>cookie\<close>.
\<close>

theorem buildMethodBody_locations_witness:
  "(\<exists>text. buildMethodBody ''https://chat.roblox.com/v2/send-message'' ''post''
              [messageLogical] [] True = Inr text)
   \<and> buildMethodBody ''https://files.roblox.com/v1/upload'' ''post'' [nameLogical] [] True =
       Inl (Error ''Unsupported parameter location: formData'')
   \<and> ((\<exists>text. buildMethodBody ''https://files.roblox.com/v1/upload'' ''post''
                 [fileLogical] [] False = Inr text)
       \<or> buildMethodBody ''https://files.roblox.com/v1/upload'' ''post'' [fileLogical] [] False =
          Inl (Error ''[object Object]''))
   \<and> (\<exists>e. buildMethodBody ''https://users.roblox.com/v1/users'' ''get''
            [cookieLogical] [] False = Inl e)"
  using buildMethodBody_locations [where ps = "[messageLogical]"
          and url = "''https://chat.roblox.com/v2/send-message''" and methodType = "''post''"
          and pps = "[]"]
        buildMethodBody_locations [where ps = "[nameLogical]"
          and url = "''https://files.roblox.com/v1/upload''" and methodType = "''post''"
          and pps = "[]"]
        buildMethodBody_locations [where ps = "[fileLogical]"
          and url = "''https://files.roblox.com/v1/upload''" and methodType = "''post''"
          and pps = "[]"]
        buildMethodBody_locations [where ps = "[cookieLogical]"
          and url = "''https://users.roblox.com/v1/users''" and methodType = "''get''"
          and pps = "[]"]
  by (simp add: messageLogical_def nameLogical_def fileLogical_def cookieLogical_def
        undefined_str_def)

text \<open>
  C2 as stated fails: \<open>postUpload\<close> declares one object parameter with the location
  formData, and its compilation raises the unsupported-location error.
\<close>

theorem grouped_formData_counterexample:
  "snd (buildEndpoint ''Files'' ''https://files.roblox.com'' ''/v1/upload''
          [(''post'', postUpload)] []) =
     Inl (Error ''Unsupported parameter location: formData'')"
  by code_simp

text \<open>
  The error is thrown inside the callback of the document request, which has no
  handler of its own: it ends the run.
\<close>

lemma unsupported_location_fails_run:
  "main filesNetwork [''https://files.roblox.com''] filesApis =
     ErrorDetected (Error ''Unsupported parameter location: formData'')"
  by code_simp

section \<open>A failed document request\<close>

lemma Promise_all_rejects:
  "Inl e \<in> set ps \<Longrightarrow> \<exists>e'. Promise_all ps = Inl e'"
proof (induction ps)
  case Nil
  then show ?case by simp
next
  case (Cons p ps)
  show ?case
  proof (cases p)
    case (Inl e0)
    then show ?thesis by simp
  next
    case (Inr v)
    with Cons.prems have "Inl e \<in> set ps" by auto
    from Cons.IH [OF this] Inr show ?thesis by auto
  qed
qed

lemma Promise_all_fulfilled:
  "Promise_all ps = Inr vs \<Longrightarrow> p \<in> set ps \<Longrightarrow> \<exists>v. p = Inr v"
proof (induction ps arbitrary: vs)
  case Nil
  then show ?case by simp
next
  case (Cons q ps)
  show ?case
  proof (cases q)
    case (Inl e0)
    with Cons.prems show ?thesis by simp
  next
    case (Inr v)
    with Cons.prems obtain ws where "Promise_all ps = Inr ws"
      by (auto split: sum.splits)
    with Cons.IH [of ws] Cons.prems Inr show ?thesis by auto
  qed
qed

lemma versionsOf_all:
  assumes "\<And>version. version \<in> set vs \<Longrightarrow> \<exists>methods. request version = Inr methods"
  shows "map fst (List.map_filter
            (\<lambda>version. case request version of
                          Inl e \<Rightarrow> None
                        | Inr methods \<Rightarrow> Some (version, methods)) vs) = vs"
  using assms
proof (induction vs)
  case Nil
  then show ?case by (simp add: List.map_filter_simps)
next
  case (Cons v vs)
  from Cons.prems [of v] obtain methods where "request v = Inr methods" by auto
  moreover from Cons have "map fst (List.map_filter
            (\<lambda>version. case request version of
                          Inl e \<Rightarrow> None
                        | Inr methods \<Rightarrow> Some (version, methods)) vs) = vs"
    by simp
  ultimately show ?case by (simp add: List.map_filter_simps)
qed

text \<open>
  A rejected element of \<^verbatim>\<open>docsRequests\<close>, whether the request failed or the compilation
  of its document threw, rejects \<^verbatim>\<open>buildApiTree\<close> and ends the run in the error handler.
\<close>

lemma rejected_request_fails_run:
  assumes "(apiName, data) \<in> set apis" and "version \<in> set (m_versions data)"
    and "docsRequest net apiName data version = Inl e"
  shows "(\<exists>e'. buildApiTree net apis = Inl e')
       \<and> (\<exists>e'. main net apisList apis = ErrorDetected e')"
proof -
  let ?reqs = "concat (map (\<lambda>(apiName, data).
                 map (docsRequest net apiName data) (m_versions data)) apis)"
  from assms have "Inl e \<in> set ?reqs"
    by (force simp: image_iff)
  from Promise_all_rejects [OF this] obtain e' where "Promise_all ?reqs = Inl e'"
    by blast
  then have "buildApiTree net apis = Inl e'"
    by (simp add: buildApiTree_def Let_def)
  then show ?thesis
    by (auto simp: main_def)
qed

text \<open>
  C1 (amended). When the request of the schema document fails for some API and
  version, the failure is not caught: \<^verbatim>\<open>buildApiTree\<close> fails as a whole, the run ends in
  the handler that prints the error, and no file is generated. A tree that is returned
  holds every API with every version its metadata declares.
\<close>

theorem buildApiTree_propagates:
  "((apiName, data) \<in> set apis \<and> version \<in> set (m_versions data)
      \<and> net (m_url data @ ''/docs/json/'' @ version) = Inl e \<longrightarrow>
        (\<exists>e'. buildApiTree net apis = Inl e')
        \<and> (\<exists>e'. main net apisList apis = ErrorDetected e'))
   \<and> (buildApiTree net apis = Inr tree \<longrightarrow>
        map fst tree = map fst apis
        \<and> list_all (\<lambda>entry. map fst (versions (snd entry)) = m_versions (meta (snd entry))) tree)"
proof (intro conjI impI)
  assume a: "(apiName, data) \<in> set apis \<and> version \<in> set (m_versions data)
      \<and> net (m_url data @ ''/docs/json/'' @ version) = Inl e"
  then have "docsRequest net apiName data version = Inl e"
    by (simp add: docsRequest_def)
  with a show "\<exists>e'. buildApiTree net apis = Inl e'"
    and "\<exists>e'. main net apisList apis = ErrorDetected e'"
    using rejected_request_fails_run [of apiName data apis version net e apisList] by simp_all
next
  assume t: "buildApiTree net apis = Inr tree"
  let ?reqs = "concat (map (\<lambda>(apiName, data).
                 map (docsRequest net apiName data) (m_versions data)) apis)"
  from t obtain results where d: "Promise_all ?reqs = Inr results"
    and tree: "tree = map (\<lambda>(apiName, data).
                   (apiName, \<lparr> meta = data, versions = versionsOf net apiName data \<rparr>)) apis"
    by (auto simp: buildApiTree_def Let_def split: sum.splits)
  show "map fst tree = map fst apis"
    by (simp add: tree case_prod_beta comp_def)
  have "map fst (versionsOf net apiName data) = m_versions data"
    if "(apiName, data) \<in> set apis" for apiName data
  proof -
    have "\<exists>methods. docsRequest net apiName data version = Inr methods"
      if "version \<in> set (m_versions data)" for version
    proof -
      from that \<open>(apiName, data) \<in> set apis\<close>
      have "docsRequest net apiName data version \<in> set ?reqs"
        by (force simp: image_iff)
      from Promise_all_fulfilled [OF d this] show ?thesis .
    qed
    then show ?thesis
      unfolding versionsOf_def by (rule versionsOf_all)
  qed
  then show "list_all (\<lambda>entry. map fst (versions (snd entry)) = m_versions (meta (snd entry))) tree"
    by (auto simp: tree list_all_iff)
qed

text \<open>
  C1 as stated fails: when the document of version v1 arrives and the request for v2
  fails, no tree without v2 is built; the stage and the run fail with the error of the
  request.
\<close>

theorem buildApiTree_failed_fetch_counterexample:
  "buildApiTree onlyV1 usersApis = Inl (RequestFailed ''https://users.roblox.com/docs/json/v2'')
   \<and> main onlyV1 [''https://users.roblox.com''] usersApis =
       ErrorDetected (RequestFailed ''https://users.roblox.com/docs/json/v2'')"
  by code_simp

lemma buildApiTree_everyVersion: "buildApiTree everyVersion usersApis = Inr usersTree"
  by code_simp

text \<open>
  The theorem at the same network and metadata, and at a network that answers every
  request.
\<close>

theorem buildApiTree_propagates_witness:
  "(\<exists>e'. buildApiTree onlyV1 usersApis = Inl e')
   \<and> (\<exists>e'. main onlyV1 [''https://users.roblox.com''] usersApis = ErrorDetected e')
   \<and> buildApiTree everyVersion usersApis = Inr usersTree
   \<and> map fst usersTree = map fst usersApis
   \<and> list_all (\<lambda>entry. map fst (versions (snd entry)) = m_versions (meta (snd entry))) usersTree"
  using buildApiTree_propagates [where apis = usersApis and net = onlyV1
          and apiName = "''Users''"
          and data = "\<lparr> m_url = ''https://users.roblox.com'', m_versions = [''v1'', ''v2''] \<rparr>"
          and version = "''v2''" and apisList = "[''https://users.roblox.com'']"
          and e = "RequestFailed ''https://users.roblox.com/docs/json/v2''"]
        buildApiTree_propagates [where apis = usersApis and net = everyVersion
          and tree = usersTree]
        buildApiTree_everyVersion
  by (simp add: usersApis_def onlyV1_def)

section \<open>The guard of required parameters\<close>






section \<open>The single-object case\<close>







end
